theory Spec2Isabelle
  imports Main "HOL-Library.Sublist"
begin

section \<open>JavaScript values and string operations used by the two Lambda handlers\<close>

text \<open>
  Both handlers are asynchronous JavaScript functions whose bodies are wrapped in
  \<^verbatim>\<open>try { ... } catch\<close>. An exception is a value of type \<open>exn\<close>; a block that may
  throw returns \<open>exn + 'a\<close>, with \<open>Inl\<close> for the exception.
  A property that may be absent (\<^verbatim>\<open>undefined\<close> or \<^verbatim>\<open>null\<close>) is an \<open>option\<close>.
\<close>

datatype exn = TypeError | InvalidURL | ServiceError | KeyNotFound | JwtError | Unauthorized

text \<open>JavaScript truthiness of an optional string: absent and the empty string are falsy.\<close>

definition truthy :: "string option \<Rightarrow> bool" where
  "truthy v = (case v of None \<Rightarrow> False | Some s \<Rightarrow> s \<noteq> [])"

text \<open>\<^verbatim>\<open>a || b\<close> on optional strings.\<close>

definition js_or :: "string option \<Rightarrow> string option \<Rightarrow> string option" where
  "js_or a b = (if truthy a then a else b)"

text \<open>String conversion in a template literal, a property key or \<^verbatim>\<open>new URL(x)\<close>:
  \<^verbatim>\<open>undefined\<close> becomes the text \<^verbatim>\<open>undefined\<close>.\<close>

definition String_undefined :: "string option \<Rightarrow> string" where
  "String_undefined v = (case v of None \<Rightarrow> ''undefined'' | Some s \<Rightarrow> s)"

text \<open>String conversion of a value that is \<^verbatim>\<open>null\<close> when absent
  (the result of \<^verbatim>\<open>URLSearchParams.get\<close>).\<close>

definition String_null :: "string option \<Rightarrow> string" where
  "String_null v = (case v of None \<Rightarrow> ''null'' | Some s \<Rightarrow> s)"

text \<open>\<^verbatim>\<open>s.split(c)\<close> for a one-character separator: never the empty array.\<close>

fun js_split :: "char \<Rightarrow> string \<Rightarrow> string list" where
  "js_split c [] = [[]]"
| "js_split c (x # xs) =
     (if x = c then [] # js_split c xs
      else (case js_split c xs of [] \<Rightarrow> [[x]] | y # ys \<Rightarrow> (x # y) # ys))"

text \<open>\<^verbatim>\<open>hay.includes(needle)\<close>: the needle occurs as a contiguous substring.\<close>

fun js_includes :: "string \<Rightarrow> string \<Rightarrow> bool" where
  "js_includes [] needle = (needle = [])"
| "js_includes (h # hs) needle = (prefix needle (h # hs) \<or> js_includes hs needle)"

text \<open>\<^verbatim>\<open>s.replace(pat, rep)\<close> with a string pattern: the first occurrence only.\<close>

fun js_replace :: "string \<Rightarrow> string \<Rightarrow> string \<Rightarrow> string" where
  "js_replace pat rep [] = (if pat = [] then rep else [])"
| "js_replace pat rep (c # cs) =
     (if prefix pat (c # cs) then rep @ drop (length pat) (c # cs)
      else c # js_replace pat rep cs)"

text \<open>\<^verbatim>\<open>xs.join(sep)\<close> on an array of strings.\<close>

fun join :: "string \<Rightarrow> string list \<Rightarrow> string" where
  "join sep [] = []"
| "join sep [x] = x"
| "join sep (x # y # ys) = x @ sep @ join sep (y # ys)"

subsection \<open>Object literals and property reads\<close>

text \<open>
  An object literal is an association list of its own properties. Reading
  \<^verbatim>\<open>obj[key]\<close> finds an own property, else a property inherited from
  \<^verbatim>\<open>Object.prototype\<close> (a built-in function, or \<^verbatim>\<open>Object.prototype\<close> itself for
  \<^verbatim>\<open>__proto__\<close>), else \<^verbatim>\<open>undefined\<close>.
\<close>

definition Object_prototype_keys :: "string list" where
  "Object_prototype_keys =
     [''constructor'', ''__defineGetter__'', ''__defineSetter__'', ''hasOwnProperty'',
      ''__lookupGetter__'', ''__lookupSetter__'', ''isPrototypeOf'',
      ''propertyIsEnumerable'', ''toString'', ''valueOf'', ''__proto__'',
      ''toLocaleString'']"

datatype 'a member = Own 'a | Inherited | Undefined

definition get_prop :: "(string \<times> 'a) list \<Rightarrow> string \<Rightarrow> 'a member" where
  "get_prop obj key =
     (case map_of obj key of
        Some v \<Rightarrow> Own v
      | None \<Rightarrow> if key \<in> set Object_prototype_keys then Inherited else Undefined)"

section \<open>The role policies and the reduction to allowed actions (both Lambdas)\<close>

text \<open>The \<^verbatim>\<open>policies\<close> literal; \<open>userId\<close> is interpolated into the scoped entries.\<close>

definition policies :: "string option \<Rightarrow> (string \<times> string list) list" where
  "policies userId =
     [(''Administrators'', [''*'']),
      (''Practitioners'',
         [''Patient.read'', ''Patient.write'', ''Observation.read'', ''Observation.write'']),
      (''Patients'',
         [''Patient.read?patient='' @ String_undefined userId,
          ''Observation.read?subject='' @ String_undefined userId])]"

text \<open>
  \<^verbatim>\<open>...(policies[group] || [])\<close>: an own array is spread, \<^verbatim>\<open>undefined\<close> gives the
  empty array, and an inherited member is truthy but not iterable, so the spread throws.
\<close>

definition spread_or_empty :: "string list member \<Rightarrow> exn + string list" where
  "spread_or_empty v =
     (case v of Own xs \<Rightarrow> Inr xs | Undefined \<Rightarrow> Inr [] | Inherited \<Rightarrow> Inl TypeError)"

text \<open>\<^verbatim>\<open>groups.reduce((acc, group) => [...acc, ...(policies[group] || [])], [])\<close>\<close>

fun reduce_policies ::
  "(string \<times> string list) list \<Rightarrow> string list \<Rightarrow> string list \<Rightarrow> exn + string list" where
  "reduce_policies pol acc [] = Inr acc"
| "reduce_policies pol acc (groupName # rest) =
     (case spread_or_empty (get_prop pol groupName) of
        Inl e \<Rightarrow> Inl e
      | Inr xs \<Rightarrow> reduce_policies pol (acc @ xs) rest)"

section \<open>The SMART on FHIR identity provider Lambda (lambda-idp)\<close>

subsection \<open>Inputs, platform and outputs\<close>

record event =
  operationName :: "string option"
  datastoreEndpoint :: "string option"
  bearerToken :: "string option"

text \<open>
  The second argument of \<^verbatim>\<open>checkUserPermissions\<close> and of the operation handlers: the
  object returned by \<^verbatim>\<open>getUserInfo\<close> (\<^verbatim>\<open>{}\<close> or the Cognito user), or the
  function \<^verbatim>\<open>userInfo\<close> imported from \<^verbatim>\<open>os\<close> at the top of the module.
\<close>

datatype userInfo = UserObject "string option" | os_userInfo

fun Username :: "userInfo \<Rightarrow> string option" where
  "Username (UserObject u) = u"
| "Username os_userInfo = None"

record url =
  pathname :: string
  search :: string

text \<open>
  What the code calls but does not define: the Cognito client, the WHATWG \<^verbatim>\<open>URL\<close>
  and \<^verbatim>\<open>URLSearchParams\<close> classes, the process environment and the clock.
  \<open>None\<close> is a rejected promise or a thrown exception.
  \<open>builtin_member_truthy r k\<close> tells whether \<^verbatim>\<open>Object.prototype[r][k]\<close> is truthy
  (or throws when read).
\<close>

record platform =
  cognito_getUser :: "string \<Rightarrow> string option"
  cognito_adminListGroupsForUser :: "string option \<Rightarrow> string list option"
  new_URL :: "string \<Rightarrow> url option"
  URLSearchParams_get :: "string \<Rightarrow> string \<Rightarrow> string option"
  builtin_member_truthy :: "string \<Rightarrow> string \<Rightarrow> bool"
  HEALTHLAKE_ROLE_ARN :: "string option"
  OAUTH2_SERVER_URL :: "string option"
  Date_now :: nat

record authPayload =
  iss :: string
  aud :: string
  iat :: nat
  nbf :: nat
  exp :: nat
  isAuthorized :: bool
  scope :: string
  sub :: string

datatype response =
    ErrorResponse nat string string
  | Forward authPayload string

subsection \<open>checkUserPermissions\<close>

definition resourceOperationPermissionsMap ::
  "(string \<times> (string \<times> string list) list) list" where
  "resourceOperationPermissionsMap =
     [(''Patient'',
        [(''CreateResource'', [''Patient.write'']),
         (''DeleteResource'', [''Patient.write'']),
         (''ReadResource'', [''Patient.read'']),
         (''SearchAll'', [''Patient.read'']),
         (''SearchWithGet'', [''Patient.read'']),
         (''SearchWithPost'', [''Patient.read'']),
         (''UpdateResource'', [''Patient.write'']),
         (''StartFHIRExportJobWithPost'', [''Patient.write''])]),
      (''Observation'',
        [(''CreateResource'', [''Observation.write'']),
         (''DeleteResource'', [''Observation.write'']),
         (''ReadResource'', [''Observation.read'']),
         (''SearchAll'', [''Observation.read'']),
         (''SearchWithGet'', [''Observation.read'']),
         (''SearchWithPost'', [''Observation.read'']),
         (''UpdateResource'', [''Observation.write'']),
         (''StartFHIRExportJobWithPost'', [''Observation.write''])])]"

text \<open>
  \<^verbatim>\<open>resourceOperationPermissionsMap[resourcePath][operationName] || []\<close>, on which
  \<^verbatim>\<open>.every\<close> is then called. Reading a property of \<^verbatim>\<open>undefined\<close> throws; a truthy
  value that is not an array has no \<^verbatim>\<open>every\<close> method, so the call throws.
\<close>

definition requiredPermissions :: "platform \<Rightarrow> string \<Rightarrow> string option \<Rightarrow> exn + string list" where
  "requiredPermissions pf resourcePath opName =
     (case get_prop resourceOperationPermissionsMap resourcePath of
        Undefined \<Rightarrow> Inl TypeError
      | Own ops \<Rightarrow>
          (case get_prop ops (String_undefined opName) of
             Own ps \<Rightarrow> Inr ps
           | Undefined \<Rightarrow> Inr []
           | Inherited \<Rightarrow> Inl TypeError)
      | Inherited \<Rightarrow>
          (if builtin_member_truthy pf resourcePath (String_undefined opName)
           then Inl TypeError else Inr []))"

text \<open>\<^verbatim>\<open>const [_, query] = allowedAction.split('?')\<close>\<close>

definition scope_query :: "string \<Rightarrow> string" where
  "scope_query allowedAction =
     (case js_split (CHR ''?'') allowedAction of _ # query # _ \<Rightarrow> query | _ \<Rightarrow> [])"

text \<open>
  The \<^verbatim>\<open>for\<close> loop over the matching allowed actions (lines 330-350).
  \<^verbatim>\<open>URLSearchParams\<close> has no method \<^verbatim>\<open>every\<close>, so the \<^verbatim>\<open>SearchWithGet\<close>
  branch throws a TypeError at \<^verbatim>\<open>queryParams.every(...)\<close>; its callback never runs.
\<close>

fun scope_loop :: "platform \<Rightarrow> event \<Rightarrow> string list \<Rightarrow> exn + bool" where
  "scope_loop pf ev [] = Inr True"
| "scope_loop pf ev (allowedAction # rest) =
     (if CHR ''?'' \<in> set allowedAction then
        (if operationName ev = Some ''SearchWithGet'' then
           (case new_URL pf (String_undefined (datastoreEndpoint ev)) of
              None \<Rightarrow> Inl InvalidURL
            | Some u \<Rightarrow> Inl TypeError)
         else if operationName ev = Some ''UpdateResource''
               \<or> operationName ev = Some ''DeleteResource''
               \<or> operationName ev = Some ''ReadResource'' then
           (case new_URL pf (String_undefined (datastoreEndpoint ev)) of
              None \<Rightarrow> Inl InvalidURL
            | Some u \<Rightarrow>
                if js_includes (pathname u)
                     (String_null
                        (js_or (URLSearchParams_get pf (scope_query allowedAction) ''patient'')
                               (URLSearchParams_get pf (scope_query allowedAction) ''subject'')))
                then scope_loop pf ev rest
                else Inr False)
         else scope_loop pf ev rest)
      else scope_loop pf ev rest)"

text \<open>The filter predicate of lines 319-323.\<close>

definition permission_match :: "string \<Rightarrow> string \<Rightarrow> bool" where
  "permission_match permission action =
     (if CHR ''?'' \<in> set action then hd (js_split (CHR ''?'') action) = permission
      else action = permission)"

text \<open>The callback given to \<^verbatim>\<open>requiredPermissions.every\<close> (lines 317-353).\<close>

definition permission_callback ::
  "platform \<Rightarrow> event \<Rightarrow> string list \<Rightarrow> string \<Rightarrow> exn + bool" where
  "permission_callback pf ev allowedActions permission =
     (let allowedActionsPermissionMatch = filter (permission_match permission) allowedActions
      in if length allowedActionsPermissionMatch = 0 then Inr False
         else scope_loop pf ev allowedActionsPermissionMatch)"

text \<open>\<^verbatim>\<open>Array.prototype.every\<close>: stops at the first false; an exception propagates.\<close>

fun every :: "('a \<Rightarrow> exn + bool) \<Rightarrow> 'a list \<Rightarrow> exn + bool" where
  "every f [] = Inr True"
| "every f (x # xs) =
     (case f x of Inl e \<Rightarrow> Inl e | Inr b \<Rightarrow> if b then every f xs else Inr False)"

text \<open>The body of the \<^verbatim>\<open>try\<close> block of \<^verbatim>\<open>checkUserPermissions\<close>.\<close>

definition checkUserPermissions_try :: "platform \<Rightarrow> event \<Rightarrow> userInfo \<Rightarrow> exn + bool" where
  "checkUserPermissions_try pf ev userInfo =
     (case cognito_adminListGroupsForUser pf (Username userInfo) of
        None \<Rightarrow> Inl ServiceError
      | Some userGroupsNames \<Rightarrow>
          (case reduce_policies (policies (Username userInfo)) [] userGroupsNames of
             Inl e \<Rightarrow> Inl e
           | Inr allowedActions \<Rightarrow>
               if ''*'' \<in> set allowedActions then Inr True
               else
                 (case new_URL pf (String_undefined (datastoreEndpoint ev)) of
                    None \<Rightarrow> Inl InvalidURL
                  | Some u \<Rightarrow>
                      (case requiredPermissions pf
                              (last (js_split (CHR ''/'') (pathname u))) (operationName ev) of
                         Inl e \<Rightarrow> Inl e
                       | Inr required \<Rightarrow>
                           every (permission_callback pf ev allowedActions) required))))"

text \<open>\<^verbatim>\<open>catch (error) { return false; }\<close>\<close>

definition checkUserPermissions :: "platform \<Rightarrow> event \<Rightarrow> userInfo \<Rightarrow> bool" where
  "checkUserPermissions pf ev userInfo =
     (case checkUserPermissions_try pf ev userInfo of Inl e \<Rightarrow> False | Inr b \<Rightarrow> b)"

subsection \<open>getUserInfo and forwardRequestToHealthLake\<close>

definition getUserInfo :: "platform \<Rightarrow> event \<Rightarrow> userInfo" where
  "getUserInfo pf ev =
     (if \<not> truthy (bearerToken ev) then UserObject None
      else (case cognito_getUser pf (String_undefined (bearerToken ev)) of
              None \<Rightarrow> UserObject None
            | Some name \<Rightarrow> UserObject (Some name)))"

definition forwardRequestToHealthLake :: "platform \<Rightarrow> event \<Rightarrow> userInfo \<Rightarrow> response" where
  "forwardRequestToHealthLake pf ev userInfo =
     (if \<not> truthy (datastoreEndpoint ev) \<or> \<not> truthy (bearerToken ev) then
        ErrorResponse 400 ''invalid_request'' ''Missing datastoreEndpoint or bearerToken''
      else
        (let currentTimeInSeconds = Date_now pf div 1000;
             expirationTimeInSeconds = currentTimeInSeconds + 3600
         in if \<not> truthy (HEALTHLAKE_ROLE_ARN pf) then
              ErrorResponse 500 ''server_error'' ''HealthLake IAM role configuration is missing''
            else
              Forward
                \<lparr> iss = String_undefined
                          (js_or (OAUTH2_SERVER_URL pf)
                                 (Some ''https://main-oauth2-server-link.com/oauth2/token'')),
                  aud = String_undefined (datastoreEndpoint ev),
                  iat = currentTimeInSeconds,
                  nbf = currentTimeInSeconds,
                  exp = expirationTimeInSeconds,
                  isAuthorized = True,
                  scope = ''system/*.*'',
                  sub = String_undefined (js_or (Username userInfo) (Some ''anonymous'')) \<rparr>
                (String_undefined (HEALTHLAKE_ROLE_ARN pf))))"

subsection \<open>The operation handlers and the entry point\<close>

text \<open>\<^verbatim>\<open>handleSearchAll\<close> takes one parameter only; the name \<^verbatim>\<open>userInfo\<close> in its body
  is the module-level import from \<^verbatim>\<open>os\<close>.\<close>

definition handleSearchAll :: "platform \<Rightarrow> event \<Rightarrow> response" where
  "handleSearchAll pf ev = forwardRequestToHealthLake pf ev os_userInfo"

definition handleSearchWithGet :: "platform \<Rightarrow> event \<Rightarrow> userInfo \<Rightarrow> response" where
  "handleSearchWithGet pf ev userInfo = forwardRequestToHealthLake pf ev userInfo"

definition handleCreateResource :: "platform \<Rightarrow> event \<Rightarrow> userInfo \<Rightarrow> response" where
  "handleCreateResource pf ev userInfo = forwardRequestToHealthLake pf ev userInfo"

definition handleDeleteResource :: "platform \<Rightarrow> event \<Rightarrow> userInfo \<Rightarrow> response" where
  "handleDeleteResource pf ev userInfo = forwardRequestToHealthLake pf ev userInfo"

definition handleReadResource :: "platform \<Rightarrow> event \<Rightarrow> userInfo \<Rightarrow> response" where
  "handleReadResource pf ev userInfo = forwardRequestToHealthLake pf ev userInfo"

definition handleSearchWithPost :: "platform \<Rightarrow> event \<Rightarrow> userInfo \<Rightarrow> response" where
  "handleSearchWithPost pf ev userInfo = forwardRequestToHealthLake pf ev userInfo"

definition handleStartFHIRExportJobWithPost :: "platform \<Rightarrow> event \<Rightarrow> userInfo \<Rightarrow> response" where
  "handleStartFHIRExportJobWithPost pf ev userInfo = forwardRequestToHealthLake pf ev userInfo"

definition handleUpdateResource :: "platform \<Rightarrow> event \<Rightarrow> userInfo \<Rightarrow> response" where
  "handleUpdateResource pf ev userInfo = forwardRequestToHealthLake pf ev userInfo"

definition access_denied :: response where
  "access_denied =
     ErrorResponse 403 ''access_denied''
       ''User does not have permission to perform this operation''"

text \<open>
  The entry point. \<^verbatim>\<open>getUserInfo\<close> and \<^verbatim>\<open>checkUserPermissions\<close> catch their own
  exceptions, and nothing else in the \<^verbatim>\<open>try\<close> blocks of the entry point and of
  \<^verbatim>\<open>forwardRequestToHealthLake\<close> throws (property reads on objects and on a function,
  environment reads, arithmetic), so their \<^verbatim>\<open>catch\<close> blocks (the two 500
  \<^verbatim>\<open>server_error\<close> responses) have no branch here.
\<close>

definition idp_handler :: "platform \<Rightarrow> event \<Rightarrow> response" where
  "idp_handler pf ev =
     (let userInfo = getUserInfo pf ev;
          hasPermission = checkUserPermissions pf ev userInfo
      in if \<not> hasPermission then access_denied
         else if truthy (operationName ev) then
           (let opName = String_undefined (operationName ev)
            in if opName = ''CreateResource'' then handleCreateResource pf ev userInfo
               else if opName = ''DeleteResource'' then handleDeleteResource pf ev userInfo
               else if opName = ''ReadResource'' then handleReadResource pf ev userInfo
               else if opName = ''SearchAll'' then handleSearchAll pf ev
               else if opName = ''SearchWithGet'' then handleSearchWithGet pf ev userInfo
               else if opName = ''SearchWithPost'' then handleSearchWithPost pf ev userInfo
               else if opName = ''StartFHIRExportJobWithPost''
                    then handleStartFHIRExportJobWithPost pf ev userInfo
               else if opName = ''UpdateResource'' then handleUpdateResource pf ev userInfo
               else ErrorResponse 400 ''unsupported_operation''
                      (''Operation '' @ opName @ '' is not supported''))
         else ErrorResponse 400 ''invalid_request'' ''No valid operationName provided'')"

section \<open>The gateway authorizer Lambda (lambda-auth)\<close>

subsection \<open>Inputs, platform and outputs\<close>

record authEvent =
  authorizationToken :: "string option"
  methodArn :: "string option"

record jwtHeader =
  kid :: "string option"

text \<open>The claims of the token payload that the handler reads.\<close>

record jwtClaims =
  token_sub :: "string option"
  token_email :: "string option"
  token_preferred_username :: "string option"
  cognito_groups :: "string list option"

text \<open>The result of \<^verbatim>\<open>jwt.decode(token, { complete: true })\<close> when it is not null;
  a missing or falsy header or payload is \<open>None\<close>.\<close>

record decodedToken =
  header :: "jwtHeader option"
  payload :: "jwtClaims option"

text \<open>The two arguments \<^verbatim>\<open>(err, key)\<close> that the JWKS client gives to its callback.\<close>

datatype jwks_callback = JwksError | JwksKey string | JwksNothing

text \<open>
  What the code calls but does not define: \<^verbatim>\<open>jsonwebtoken\<close> and \<^verbatim>\<open>jwks-rsa\<close>.
  \<open>jwt_verify\<close> checks the RS256 signature and the temporal claims and returns the
  payload, or throws.
\<close>

record auth_platform =
  jwt_decode :: "string \<Rightarrow> decodedToken option"
  client_getSigningKey :: "string option \<Rightarrow> jwks_callback"
  jwt_verify :: "string \<Rightarrow> string \<Rightarrow> exn + jwtClaims"

datatype effect = Allow | Deny

record statement =
  Action :: string
  Effect :: effect
  Resource :: "string option"

record policyDocument =
  Version :: string
  Statement :: "statement list"

record authContext =
  userId :: "string option"
  userName :: "string option"
  groups :: string
  scopes :: string

record authResponse =
  principalId :: "string option"
  policyDocument :: policyDocument
  context_attributes :: "authContext option"

subsection \<open>getSigningKey and the handler\<close>

definition getSigningKey :: "auth_platform \<Rightarrow> string option \<Rightarrow> exn + string" where
  "getSigningKey pf k =
     (case client_getSigningKey pf k of
        JwksError \<Rightarrow> Inl ServiceError
      | JwksKey publicKey \<Rightarrow> Inr publicKey
      | JwksNothing \<Rightarrow> Inl KeyNotFound)"

text \<open>Lines 46-91: from the verified payload to the Allow response. The reduction over the
  groups is the only step that can throw.\<close>

definition allow_response :: "authEvent \<Rightarrow> jwtClaims \<Rightarrow> exn + authResponse" where
  "allow_response ev verifiedToken =
     (let uid = token_sub verifiedToken;
          uname = js_or (js_or (token_email verifiedToken)
                               (token_preferred_username verifiedToken))
                        (token_sub verifiedToken);
          userGroups = (case cognito_groups verifiedToken of None \<Rightarrow> [] | Some gs \<Rightarrow> gs)
      in case reduce_policies (policies uid) [] userGroups of
           Inl e \<Rightarrow> Inl e
         | Inr allowedActions \<Rightarrow>
             Inr \<lparr> principalId = uname,
                   policyDocument =
                     \<lparr> Version = ''2012-10-17'',
                       Statement = [\<lparr> Action = ''execute-api:Invoke'', Effect = Allow,
                                      Resource = methodArn ev \<rparr>] \<rparr>,
                   context_attributes =
                     Some \<lparr> userId = uid, userName = uname,
                            groups = join '','' userGroups,
                            scopes = join '','' allowedActions \<rparr> \<rparr>)"

text \<open>\<^verbatim>\<open>event.authorizationToken.replace('Bearer ', '')\<close>\<close>

definition bearer_token :: "authEvent \<Rightarrow> string" where
  "bearer_token ev = js_replace ''Bearer '' [] (String_undefined (authorizationToken ev))"

text \<open>The body of the \<^verbatim>\<open>try\<close> block of the handler.\<close>

definition auth_handler_try :: "auth_platform \<Rightarrow> authEvent \<Rightarrow> exn + authResponse" where
  "auth_handler_try pf ev =
     (if \<not> truthy (authorizationToken ev) then Inl Unauthorized
      else
        (let token = bearer_token ev
         in case jwt_decode pf token of
              None \<Rightarrow> Inl JwtError
            | Some decoded \<Rightarrow>
                (case header decoded of
                   None \<Rightarrow> Inl JwtError
                 | Some hdr \<Rightarrow>
                     (case payload decoded of
                        None \<Rightarrow> Inl JwtError
                      | Some _ \<Rightarrow>
                          (case getSigningKey pf (kid hdr) of
                             Inl e \<Rightarrow> Inl e
                           | Inr signingKey \<Rightarrow>
                               (case jwt_verify pf token signingKey of
                                  Inl e \<Rightarrow> Inl e
                                | Inr verifiedToken \<Rightarrow> allow_response ev verifiedToken))))))"

text \<open>The standardized deny policy of the \<^verbatim>\<open>catch\<close> block.\<close>

definition deny_response :: "authEvent \<Rightarrow> authResponse" where
  "deny_response ev =
     \<lparr> principalId = Some ''unauthorized'',
       policyDocument =
         \<lparr> Version = ''2012-10-17'',
           Statement = [\<lparr> Action = ''execute-api:Invoke'', Effect = Deny,
                          Resource = methodArn ev \<rparr>] \<rparr>,
       context_attributes = None \<rparr>"

text \<open>
  The handler: the \<^verbatim>\<open>catch\<close> block reads \<^verbatim>\<open>err.message\<close> and \<^verbatim>\<open>event.methodArn\<close>;
  every value thrown in the \<^verbatim>\<open>try\<close> block is an \<^verbatim>\<open>Error\<close> object or the string
  \<^verbatim>\<open>'Key not found'\<close>, and the event is an object, so neither read throws.
\<close>

definition auth_handler :: "auth_platform \<Rightarrow> authEvent \<Rightarrow> authResponse" where
  "auth_handler pf ev =
     (case auth_handler_try pf ev of Inl e \<Rightarrow> deny_response ev | Inr r \<Rightarrow> r)"

section \<open>Concrete platforms for the examples\<close>

text \<open>
  A user directory with one access token \<^verbatim>\<open>tok\<close> that belongs to user \<^verbatim>\<open>P1\<close>, whose
  groups are the parameter; the URL parser and the query-string parser are given at the
  endpoints and scope queries the examples use.
\<close>

definition example_new_URL :: "string \<Rightarrow> url option" where
  "example_new_URL s =
     map_of
       [(''https://hl.example.com/r4/Patient/P1'',
           \<lparr> pathname = ''/r4/Patient/P1'', search = [] \<rparr>),
        (''https://hl.example.com/r4/Patient/P2'',
           \<lparr> pathname = ''/r4/Patient/P2'', search = [] \<rparr>),
        (''https://hl.example.com/r4/Patient'',
           \<lparr> pathname = ''/r4/Patient'', search = [] \<rparr>),
        (''https://hl.example.com/r4/Patient?patient=P1'',
           \<lparr> pathname = ''/r4/Patient'', search = ''?patient=P1'' \<rparr>)] s"

definition example_URLSearchParams_get :: "string \<Rightarrow> string \<Rightarrow> string option" where
  "example_URLSearchParams_get query key =
     map_of
       [((''patient=P1'', ''patient''), ''P1''), ((''subject=P1'', ''subject''), ''P1''),
        ((''?patient=P1'', ''patient''), ''P1'')]
       (query, key)"

definition example_platform :: "string list \<Rightarrow> platform" where
  "example_platform gs =
     \<lparr> cognito_getUser = (\<lambda>t. if t = ''tok'' then Some ''P1'' else None),
       cognito_adminListGroupsForUser = (\<lambda>u. if u = Some ''P1'' then Some gs else None),
       new_URL = example_new_URL,
       URLSearchParams_get = example_URLSearchParams_get,
       builtin_member_truthy = (\<lambda>r k. False),
       HEALTHLAKE_ROLE_ARN = Some ''arn:aws:iam::123456789012:role/healthlake'',
       OAUTH2_SERVER_URL = None,
       Date_now = 1700000000123 \<rparr>"

text \<open>The same directory and libraries at a later moment: another clock value, another
  token table, no role configured.\<close>

definition later_platform :: "string list \<Rightarrow> platform" where
  "later_platform gs =
     (example_platform gs)
       \<lparr> cognito_getUser := (\<lambda>t. if t = ''tok2'' then Some ''P1'' else None),
         HEALTHLAKE_ROLE_ARN := None,
         Date_now := 1700000777000 \<rparr>"

definition example_event :: "string \<Rightarrow> string option \<Rightarrow> event" where
  "example_event opName endpoint =
     \<lparr> operationName = Some opName, datastoreEndpoint = endpoint, bearerToken = Some ''tok'' \<rparr>"

text \<open>A token \<^verbatim>\<open>Bearer jwt\<close> that decodes and verifies, with the given groups claim.\<close>

definition example_auth_platform :: "string list option \<Rightarrow> auth_platform" where
  "example_auth_platform gs =
     \<lparr> jwt_decode =
         (\<lambda>t. if t = ''jwt''
               then Some \<lparr> header = Some \<lparr> kid = Some ''k1'' \<rparr>,
                           payload = Some \<lparr> token_sub = Some ''P1'', token_email = None,
                                            token_preferred_username = None,
                                            cognito_groups = gs \<rparr> \<rparr>
               else None),
       client_getSigningKey = (\<lambda>k. if k = Some ''k1'' then JwksKey ''pem'' else JwksNothing),
       jwt_verify =
         (\<lambda>t k. if t = ''jwt'' \<and> k = ''pem''
                 then Inr \<lparr> token_sub = Some ''P1'', token_email = None,
                            token_preferred_username = None, cognito_groups = gs \<rparr>
                 else Inl JwtError) \<rparr>"

definition example_authEvent :: "string option \<Rightarrow> authEvent" where
  "example_authEvent t =
     \<lparr> authorizationToken = t,
       methodArn = Some ''arn:aws:execute-api:us-east-1:123456789012:api/prod/GET/Patient'' \<rparr>"

section \<open>Vocabulary of the properties\<close>

text \<open>The eight cases of the \<^verbatim>\<open>switch\<close> in the entry point.\<close>

definition supported_operations :: "string list" where
  "supported_operations =
     [''CreateResource'', ''DeleteResource'', ''ReadResource'', ''SearchAll'',
      ''SearchWithGet'', ''SearchWithPost'', ''StartFHIRExportJobWithPost'',
      ''UpdateResource'']"










section \<open>Auxiliary facts\<close>

lemmas handle_defs =
  handleSearchAll_def handleSearchWithGet_def handleCreateResource_def
  handleDeleteResource_def handleReadResource_def handleSearchWithPost_def
  handleStartFHIRExportJobWithPost_def handleUpdateResource_def

lemmas idp_defs =
  checkUserPermissions_def checkUserPermissions_try_def policies_def get_prop_def
  spread_or_empty_def String_undefined_def String_null_def requiredPermissions_def
  resourceOperationPermissionsMap_def Object_prototype_keys_def permission_callback_def
  permission_match_def scope_query_def truthy_def js_or_def getUserInfo_def
  forwardRequestToHealthLake_def idp_handler_def access_denied_def handle_defs

lemmas example_defs =
  example_platform_def example_event_def example_new_URL_def example_URLSearchParams_get_def

subsection \<open>Arrays and the reduction over the groups\<close>



lemma reduce_policies_acc:
  "reduce_policies pol acc gs = Inr xs \<Longrightarrow> set acc \<subseteq> set xs"
proof (induction gs arbitrary: acc)
  case Nil
  then show ?case by simp
next
  case (Cons a gs)
  from Cons.prems obtain ys where "reduce_policies pol (acc @ ys) gs = Inr xs"
    by (auto split: sum.splits)
  from Cons.IH [OF this] show ?case by simp
qed

lemma reduce_policies_own:
  "g \<in> set gs \<Longrightarrow> map_of pol g = Some ys \<Longrightarrow> reduce_policies pol acc gs = Inr xs
     \<Longrightarrow> set ys \<subseteq> set xs"
proof (induction gs arbitrary: acc)
  case Nil
  then show ?case by simp
next
  case (Cons a gs)
  show ?case
  proof (cases "a = g")
    case True
    with Cons.prems have "reduce_policies pol (acc @ ys) gs = Inr xs"
      by (simp add: get_prop_def spread_or_empty_def)
    then show ?thesis using reduce_policies_acc by fastforce
  next
    case False
    with Cons show ?thesis by (auto split: sum.splits)
  qed
qed

text \<open>Without a group named like a member of \<^verbatim>\<open>Object.prototype\<close> the reduction
  returns; with one it throws.\<close>

lemma reduce_policies_no_inherited:
  "set gs \<inter> set Object_prototype_keys = {} \<Longrightarrow> \<exists>xs. reduce_policies pol acc gs = Inr xs"
  by (induction gs arbitrary: acc)
     (auto simp: get_prop_def spread_or_empty_def split: option.splits)

lemma reduce_policies_inherited:
  "g \<in> set gs \<Longrightarrow> g \<in> set Object_prototype_keys \<Longrightarrow> map_of pol g = None
     \<Longrightarrow> reduce_policies pol acc gs = Inl TypeError"
  apply (induction gs arbitrary: acc)
  apply simp
  subgoal for a gs acc
    by (cases "a = g"; cases "spread_or_empty (get_prop pol a)")
       (auto simp: get_prop_def spread_or_empty_def split: option.splits if_splits)
  done

subsection \<open>The scope loop and the callback, outside SearchWithGet\<close>



subsection \<open>The paths through the entry point\<close>

lemma idp_handler_denied:
  "\<not> checkUserPermissions pf ev (getUserInfo pf ev) \<Longrightarrow> idp_handler pf ev = access_denied"
  by (simp add: idp_handler_def)

lemma idp_handler_no_operation:
  "checkUserPermissions pf ev (getUserInfo pf ev) \<Longrightarrow> \<not> truthy (operationName ev)
     \<Longrightarrow> idp_handler pf ev
         = ErrorResponse 400 ''invalid_request'' ''No valid operationName provided''"
  by (simp add: idp_handler_def)

lemma idp_handler_SearchAll:
  "checkUserPermissions pf ev (getUserInfo pf ev) \<Longrightarrow> operationName ev = Some ''SearchAll''
     \<Longrightarrow> idp_handler pf ev = forwardRequestToHealthLake pf ev os_userInfo"
  by (simp add: idp_handler_def handle_defs truthy_def String_undefined_def)

lemma idp_handler_supported:
  assumes "checkUserPermissions pf ev (getUserInfo pf ev)"
      and "operationName ev = Some opName"
      and "opName \<in> set supported_operations"
      and "opName \<noteq> ''SearchAll''"
  shows "idp_handler pf ev = forwardRequestToHealthLake pf ev (getUserInfo pf ev)"
proof -
  have "opName \<noteq> []" using assms(3) by (auto simp: supported_operations_def)
  with assms show ?thesis
    by (auto simp: idp_handler_def handle_defs truthy_def String_undefined_def Let_def
          supported_operations_def)
qed

lemma idp_handler_unsupported:
  assumes "checkUserPermissions pf ev (getUserInfo pf ev)"
      and "operationName ev = Some opName"
      and "opName \<noteq> []"
      and "opName \<notin> set supported_operations"
  shows "idp_handler pf ev = ErrorResponse 400 ''unsupported_operation''
           (''Operation '' @ opName @ '' is not supported'')"
  using assms
  by (simp add: idp_handler_def truthy_def String_undefined_def Let_def supported_operations_def)

lemma forward_missing_fields:
  "\<not> truthy (datastoreEndpoint ev) \<or> \<not> truthy (bearerToken ev)
     \<Longrightarrow> forwardRequestToHealthLake pf ev ui
         = ErrorResponse 400 ''invalid_request'' ''Missing datastoreEndpoint or bearerToken''"
  by (auto simp: forwardRequestToHealthLake_def)

text \<open>Without a bearer token \<^verbatim>\<open>getUserInfo\<close> returns \<^verbatim>\<open>{}\<close>; when the directory
  rejects the lookup of the undefined user name, the request is denied.\<close>

lemma missing_bearerToken_denied:
  "\<not> truthy (bearerToken ev) \<Longrightarrow> cognito_adminListGroupsForUser pf None = None
     \<Longrightarrow> idp_handler pf ev = access_denied"
  by (simp add: idp_handler_def getUserInfo_def checkUserPermissions_def
        checkUserPermissions_try_def)

lemma forward_lifetime:
  "forwardRequestToHealthLake pf ev ui = Forward p arn
     \<Longrightarrow> exp p = iat p + 3600 \<and> nbf p = iat p \<and> iat p = Date_now pf div 1000"
  by (auto simp: forwardRequestToHealthLake_def Let_def split: if_splits)

lemma idp_handler_Forward:
  assumes "idp_handler pf ev = Forward p arn"
  shows "\<exists>ui. forwardRequestToHealthLake pf ev ui = Forward p arn"
proof (cases "checkUserPermissions pf ev (getUserInfo pf ev)")
  case False
  with assms show ?thesis by (simp add: idp_handler_denied access_denied_def)
next
  case perm: True
  show ?thesis
  proof (cases "truthy (operationName ev)")
    case False
    with perm assms show ?thesis by (simp add: idp_handler_no_operation)
  next
    case True
    then obtain opName where op: "operationName ev = Some opName" "opName \<noteq> []"
      by (auto simp: truthy_def split: option.splits)
    show ?thesis
    proof (cases "opName \<in> set supported_operations")
      case False
      with perm op assms show ?thesis by (simp add: idp_handler_unsupported)
    next
      case True
      show ?thesis
      proof (cases "opName = ''SearchAll''")
        case True
        with perm op assms idp_handler_SearchAll [of pf ev] show ?thesis by auto
      next
        case False
        with perm op True assms idp_handler_supported [of pf ev opName] show ?thesis by auto
      qed
    qed
  qed
qed

section \<open>Properties of the identity provider Lambda\<close>

subsection \<open>A patient reading the own record\<close>

text \<open>Without the wildcard, a request is authorized only if the last segment of the
  endpoint's path is a key of the permission table or the name of a member of
  \<^verbatim>\<open>Object.prototype\<close>: never when it is a resource id.\<close>

lemma authorized_last_segment:
  assumes "checkUserPermissions pf ev ui"
      and "cognito_adminListGroupsForUser pf (Username ui) = Some gs"
      and "reduce_policies (policies (Username ui)) [] gs = Inr allowed"
      and "''*'' \<notin> set allowed"
      and "new_URL pf (String_undefined (datastoreEndpoint ev)) = Some u"
  shows "last (js_split (CHR ''/'') (pathname u))
           \<in> {''Patient'', ''Observation''} \<union> set Object_prototype_keys"
proof (rule ccontr)
  assume "\<not> ?thesis"
  then have "requiredPermissions pf (last (js_split (CHR ''/'') (pathname u)))
               (operationName ev) = Inl TypeError"
    by (simp add: requiredPermissions_def get_prop_def resourceOperationPermissionsMap_def)
  with assms(2-5) have "\<not> checkUserPermissions pf ev ui"
    by (simp add: checkUserPermissions_def checkUserPermissions_try_def)
  with assms(1) show False by simp
qed

text \<open>
  Claim C1: a principal whose only group is Patients and whose id is P1 is authorized for
  ReadResource when the target path ends in Patient/P1, and is denied with 403
  \<^verbatim>\<open>access_denied\<close> when it ends in Patient/P2.

  The code denies both. The resource type is taken to be the last path segment
  (\<^verbatim>\<open>pathname.split('/').pop()\<close>), here \<^verbatim>\<open>P1\<close>, which is no key of
  \<^verbatim>\<open>resourceOperationPermissionsMap\<close>; reading \<^verbatim>\<open>[operationName]\<close> of the
  \<^verbatim>\<open>undefined\<close> entry throws, and the \<^verbatim>\<open>catch\<close> block returns false. The path test of
  lines 342-348, written for this case, is never reached.
\<close>

theorem patient_own_record_read_denied:
  "idp_handler (example_platform [''Patients''])
     (example_event ''ReadResource'' (Some ''https://hl.example.com/r4/Patient/P1''))
     = ErrorResponse 403 ''access_denied''
         ''User does not have permission to perform this operation''
   \<and> idp_handler (example_platform [''Patients''])
       (example_event ''ReadResource'' (Some ''https://hl.example.com/r4/Patient/P2''))
     = ErrorResponse 403 ''access_denied''
         ''User does not have permission to perform this operation''"
  by (simp add: idp_defs example_defs)

subsection \<open>The matching of required permissions against allowed actions\<close>









subsection \<open>Missing request fields\<close>

text \<open>
  Claim C3, as amended: the permission check runs first. When it passes and
  \<^verbatim>\<open>operationName\<close> is absent or one of the eight supported operations, an input whose
  \<^verbatim>\<open>bearerToken\<close> or \<^verbatim>\<open>datastoreEndpoint\<close> is missing (or empty) gets a 400 response
  with error code \<^verbatim>\<open>invalid_request\<close>.
\<close>

theorem missing_fields_after_permission_check:
  assumes "checkUserPermissions pf ev (getUserInfo pf ev)"
      and "\<not> truthy (operationName ev)
           \<or> String_undefined (operationName ev) \<in> set supported_operations"
      and "\<not> truthy (datastoreEndpoint ev) \<or> \<not> truthy (bearerToken ev)"
  shows "\<exists>d. idp_handler pf ev = ErrorResponse 400 ''invalid_request'' d"
proof (cases "truthy (operationName ev)")
  case False
  with assms(1) show ?thesis by (simp add: idp_handler_no_operation)
next
  case True
  then obtain opName where op: "operationName ev = Some opName"
    by (auto simp: truthy_def split: option.splits)
  with True assms(2) have sup: "opName \<in> set supported_operations"
    by (simp add: String_undefined_def)
  show ?thesis
  proof (cases "opName = ''SearchAll''")
    case True
    with assms(1) op have "idp_handler pf ev = forwardRequestToHealthLake pf ev os_userInfo"
      by (simp add: idp_handler_SearchAll)
    with forward_missing_fields [OF assms(3)] show ?thesis by simp
  next
    case False
    from idp_handler_supported [OF assms(1) op sup False] forward_missing_fields [OF assms(3)]
    show ?thesis by simp
  qed
qed

text \<open>The theorem at an administrator's ReadResource request without
  \<^verbatim>\<open>datastoreEndpoint\<close>.\<close>

theorem missing_fields_after_permission_check_witness:
  "checkUserPermissions (example_platform [''Administrators''])
     (example_event ''ReadResource'' None)
     (getUserInfo (example_platform [''Administrators'']) (example_event ''ReadResource'' None))
   \<and> String_undefined (operationName (example_event ''ReadResource'' None))
       \<in> set supported_operations
   \<and> \<not> truthy (datastoreEndpoint (example_event ''ReadResource'' None))
   \<and> (\<exists>d. idp_handler (example_platform [''Administrators''])
              (example_event ''ReadResource'' None)
            = ErrorResponse 400 ''invalid_request'' d)"
proof -
  let ?pf = "example_platform [''Administrators'']"
  let ?ev = "example_event ''ReadResource'' None"
  have h1: "checkUserPermissions ?pf ?ev (getUserInfo ?pf ?ev)"
    by (simp add: idp_defs example_defs)
  have h2: "String_undefined (operationName ?ev) \<in> set supported_operations"
    by (simp add: example_defs String_undefined_def supported_operations_def)
  have h3: "\<not> truthy (datastoreEndpoint ?ev)"
    by (simp add: example_defs truthy_def)
  from missing_fields_after_permission_check [OF h1 disjI2 [OF h2] disjI1 [OF h3]] h1 h2 h3
  show ?thesis by blast
qed

text \<open>
  Claim C3 as stated fails: the entry point calls \<^verbatim>\<open>checkUserPermissions\<close> before any
  field is validated. For a practitioner's request without \<^verbatim>\<open>datastoreEndpoint\<close>,
  \<^verbatim>\<open>new URL(undefined)\<close> throws inside the permission check, the check returns false and
  the response is 403 \<^verbatim>\<open>access_denied\<close>, not 400 \<^verbatim>\<open>invalid_request\<close>.
\<close>

theorem missing_endpoint_access_denied_counterexample:
  "datastoreEndpoint (example_event ''ReadResource'' None) = None
   \<and> idp_handler (example_platform [''Practitioners'']) (example_event ''ReadResource'' None)
     = ErrorResponse 403 ''access_denied''
         ''User does not have permission to perform this operation''"
  by (simp add: idp_defs example_defs)

subsection \<open>Administrators\<close>

text \<open>When no group of the user is named like a member of \<^verbatim>\<open>Object.prototype\<close>, a user
  in Administrators is authorized for every event, before the endpoint is even parsed.\<close>

lemma Administrators_authorized:
  assumes "cognito_adminListGroupsForUser pf (Username ui) = Some gs"
      and "''Administrators'' \<in> set gs"
      and "set gs \<inter> set Object_prototype_keys = {}"
  shows "checkUserPermissions pf ev ui"
proof -
  obtain xs where xs: "reduce_policies (policies (Username ui)) [] gs = Inr xs"
    using reduce_policies_no_inherited [OF assms(3)] by blast
  have "map_of (policies (Username ui)) ''Administrators'' = Some [''*'']"
    by (simp add: policies_def)
  from reduce_policies_own [OF assms(2) this xs] have "''*'' \<in> set xs" by simp
  with assms(1) xs show ?thesis
    by (simp add: checkUserPermissions_def checkUserPermissions_try_def)
qed

text \<open>
  Claim C4: a principal whose groups include Administrators is authorized by the
  permission check for every (resourceType, operation) pair, also for resource types
  absent from the permission table.

  The code breaks this for a user who is also in a group whose name is an inherited
  property of the \<^verbatim>\<open>policies\<close> object, such as \<^verbatim>\<open>constructor\<close>:
  \<^verbatim>\<open>policies['constructor']\<close> is the function \<^verbatim>\<open>Object\<close>, which is truthy and not
  iterable, the spread in the reducer throws before the wildcard test of line 282, and the
  \<^verbatim>\<open>catch\<close> block returns false.
\<close>

theorem administrator_with_inherited_group_name_denied:
  "''Administrators'' \<in> set [''constructor'', ''Administrators'']
   \<and> checkUserPermissions_try (example_platform [''constructor'', ''Administrators''])
        (example_event ''ReadResource'' (Some ''https://hl.example.com/r4/Patient''))
        (UserObject (Some ''P1'')) = Inl TypeError
   \<and> idp_handler (example_platform [''constructor'', ''Administrators''])
        (example_event ''ReadResource'' (Some ''https://hl.example.com/r4/Patient''))
      = ErrorResponse 403 ''access_denied''
          ''User does not have permission to perform this operation''"
  by (simp add: idp_defs example_defs)

subsection \<open>The minted assertion\<close>

text \<open>
  Claim C6: for every successful response of the entry point, the minted assertion
  satisfies \<open>exp - iat = 3600\<close> exactly, and \<open>nbf = iat\<close>.
  (The timestamps are natural numbers: \<^verbatim>\<open>Math.floor(Date.now() / 1000)\<close> and the
  addition are exact on doubles for every clock value below \<open>2^53\<close> milliseconds.)
\<close>

theorem minted_assertion_lifetime:
  assumes "idp_handler pf ev = Forward p arn"
  shows "exp p - iat p = 3600 \<and> exp p = iat p + 3600 \<and> nbf p = iat p"
proof -
  from idp_handler_Forward [OF assms] obtain ui
    where "forwardRequestToHealthLake pf ev ui = Forward p arn" ..
  from forward_lifetime [OF this] show ?thesis by simp
qed

text \<open>The theorem at a practitioner's ReadResource request at clock value
  1700000000123 ms.\<close>

theorem minted_assertion_lifetime_witness:
  "idp_handler (example_platform [''Practitioners''])
     (example_event ''ReadResource'' (Some ''https://hl.example.com/r4/Patient''))
     = Forward
         \<lparr> iss = ''https://main-oauth2-server-link.com/oauth2/token'',
           aud = ''https://hl.example.com/r4/Patient'',
           iat = 1700000000, nbf = 1700000000, exp = 1700003600,
           isAuthorized = True, scope = ''system/*.*'', sub = ''P1'' \<rparr>
         ''arn:aws:iam::123456789012:role/healthlake''
   \<and> (1700003600::nat) - 1700000000 = 3600"
proof -
  let ?p = "\<lparr> iss = ''https://main-oauth2-server-link.com/oauth2/token'',
              aud = ''https://hl.example.com/r4/Patient'',
              iat = 1700000000, nbf = 1700000000, exp = 1700003600,
              isAuthorized = True, scope = ''system/*.*'', sub = ''P1'' \<rparr>"
  have h: "idp_handler (example_platform [''Practitioners''])
             (example_event ''ReadResource'' (Some ''https://hl.example.com/r4/Patient''))
           = Forward ?p ''arn:aws:iam::123456789012:role/healthlake''"
    by (simp add: idp_defs example_defs)
  from minted_assertion_lifetime [OF h] h show ?thesis by simp
qed

text \<open>
  Claim C10: for every SearchAll request that passes the permission check and has
  \<^verbatim>\<open>bearerToken\<close> and \<^verbatim>\<open>datastoreEndpoint\<close> present, the minted assertion's \<open>sub\<close> is
  the string \<^verbatim>\<open>anonymous\<close> whoever authenticated, because \<^verbatim>\<open>handleSearchAll\<close> passes
  the \<^verbatim>\<open>os\<close> import instead of the resolved user. (The only other outcome is the 500
  response for a missing role configuration, where nothing is minted.)
\<close>

theorem SearchAll_subject_anonymous:
  assumes "operationName ev = Some ''SearchAll''"
      and "checkUserPermissions pf ev (getUserInfo pf ev)"
      and "truthy (bearerToken ev)"
      and "truthy (datastoreEndpoint ev)"
  shows "case idp_handler pf ev of
           Forward p arn \<Rightarrow> sub p = ''anonymous''
         | ErrorResponse code err description \<Rightarrow>
             code = 500 \<and> \<not> truthy (HEALTHLAKE_ROLE_ARN pf)"
proof -
  have "idp_handler pf ev = forwardRequestToHealthLake pf ev os_userInfo"
    using assms(1,2) by (simp add: idp_handler_SearchAll)
  with assms(3,4) show ?thesis
    by (simp add: forwardRequestToHealthLake_def Let_def js_or_def truthy_def
          String_undefined_def)
qed

text \<open>The theorem at a practitioner's SearchAll request; the resolved user is P1.\<close>

theorem SearchAll_subject_anonymous_witness:
  "operationName (example_event ''SearchAll'' (Some ''https://hl.example.com/r4/Patient''))
     = Some ''SearchAll''
   \<and> checkUserPermissions (example_platform [''Practitioners''])
        (example_event ''SearchAll'' (Some ''https://hl.example.com/r4/Patient''))
        (getUserInfo (example_platform [''Practitioners''])
           (example_event ''SearchAll'' (Some ''https://hl.example.com/r4/Patient'')))
   \<and> truthy (bearerToken
        (example_event ''SearchAll'' (Some ''https://hl.example.com/r4/Patient'')))
   \<and> truthy (datastoreEndpoint
        (example_event ''SearchAll'' (Some ''https://hl.example.com/r4/Patient'')))
   \<and> getUserInfo (example_platform [''Practitioners''])
        (example_event ''SearchAll'' (Some ''https://hl.example.com/r4/Patient''))
      = UserObject (Some ''P1'')
   \<and> (case idp_handler (example_platform [''Practitioners''])
              (example_event ''SearchAll'' (Some ''https://hl.example.com/r4/Patient'')) of
         Forward p arn \<Rightarrow> sub p = ''anonymous''
       | ErrorResponse code err description \<Rightarrow>
           code = 500 \<and> \<not> truthy (HEALTHLAKE_ROLE_ARN (example_platform [''Practitioners''])))"
proof -
  let ?pf = "example_platform [''Practitioners'']"
  let ?ev = "example_event ''SearchAll'' (Some ''https://hl.example.com/r4/Patient'')"
  have h1: "operationName ?ev = Some ''SearchAll''" by (simp add: example_defs)
  have h2: "checkUserPermissions ?pf ?ev (getUserInfo ?pf ?ev)"
    by (simp add: idp_defs example_defs)
  have h3: "truthy (bearerToken ?ev)" by (simp add: example_defs truthy_def)
  have h4: "truthy (datastoreEndpoint ?ev)" by (simp add: example_defs truthy_def)
  have h5: "getUserInfo ?pf ?ev = UserObject (Some ''P1'')"
    by (simp add: getUserInfo_def example_defs truthy_def String_undefined_def)
  from SearchAll_subject_anonymous [OF h1 h2 h3 h4] h1 h2 h3 h4 h5
  show ?thesis by blast
qed

subsection \<open>Scoped entries and SearchWithGet\<close>

text \<open>For SearchWithGet the scope loop throws as soon as it meets a scoped entry.\<close>

lemma SearchWithGet_scoped_match_throws:
  "operationName ev = Some ''SearchWithGet'' \<Longrightarrow> a \<in> set as \<Longrightarrow> CHR ''?'' \<in> set a
     \<Longrightarrow> \<exists>e. scope_loop pf ev as = Inl e"
  by (induction as) (auto split: option.splits)

text \<open>
  Claim C7: for SearchWithGet, a scoped allowed entry satisfies a required permission
  precisely when every query parameter named in its scope constraint is present in the
  request's query parameters; the value need not equal the bound value.

  The code denies such a request whatever its query parameters are: the test is written
  as \<^verbatim>\<open>queryParams.every(...)\<close> on a \<^verbatim>\<open>URLSearchParams\<close> object, which has no method
  \<^verbatim>\<open>every\<close>, so the call throws a TypeError and the \<^verbatim>\<open>catch\<close> block returns false.
  Here the request of patient P1 carries \<^verbatim>\<open>?patient=P1\<close>, the parameter named by the
  scoped entry \<^verbatim>\<open>Patient.read?patient=P1\<close>.
\<close>

theorem SearchWithGet_scoped_entry_denied:
  "example_URLSearchParams_get ''patient=P1'' ''patient'' = Some ''P1''
   \<and> example_new_URL ''https://hl.example.com/r4/Patient?patient=P1''
      = Some \<lparr> pathname = ''/r4/Patient'', search = ''?patient=P1'' \<rparr>
   \<and> checkUserPermissions_try (example_platform [''Patients''])
        (example_event ''SearchWithGet'' (Some ''https://hl.example.com/r4/Patient?patient=P1''))
        (UserObject (Some ''P1'')) = Inl TypeError
   \<and> idp_handler (example_platform [''Patients''])
        (example_event ''SearchWithGet'' (Some ''https://hl.example.com/r4/Patient?patient=P1''))
      = ErrorResponse 403 ''access_denied''
          ''User does not have permission to perform this operation''"
  by (simp add: idp_defs example_defs)

subsection \<open>The decision as a function of groups and request\<close>

lemma scope_loop_cong:
  assumes "new_URL pf (String_undefined (datastoreEndpoint ev))
             = new_URL pf' (String_undefined (datastoreEndpoint ev'))"
      and "URLSearchParams_get pf = URLSearchParams_get pf'"
      and "operationName ev = operationName ev'"
  shows "scope_loop pf ev as = scope_loop pf' ev' as"
proof (induction as)
  case Nil
  show ?case by simp
next
  case (Cons a as)
  show ?case
    by (cases "new_URL pf' (String_undefined (datastoreEndpoint ev'))")
       (simp_all add: Cons.IH assms)
qed

text \<open>
  Claim C8: the authorization decision is a pure function of its inputs: two calls of the
  permission check with identical groups and request give the identical decision,
  independent of call order and of prior calls; no decision refers to state of a prior
  request.

  The module binds only constants at top level and \<^verbatim>\<open>checkUserPermissions\<close> assigns only
  its locals, so a call is a function of its arguments and of what the platform returns
  during the call. Two calls may see different platforms (another clock value and
  environment, another token table, other users' groups) and events with different
  bearer tokens: when the directory returns the same groups for the user, the URL library
  is the same and the events agree on \<^verbatim>\<open>operationName\<close> and \<^verbatim>\<open>datastoreEndpoint\<close>, the
  decisions are equal.
\<close>

theorem checkUserPermissions_pure:
  assumes "cognito_adminListGroupsForUser pf (Username ui)
             = cognito_adminListGroupsForUser pf' (Username ui)"
      and "new_URL pf = new_URL pf'"
      and "URLSearchParams_get pf = URLSearchParams_get pf'"
      and "builtin_member_truthy pf = builtin_member_truthy pf'"
      and "operationName ev = operationName ev'"
      and "datastoreEndpoint ev = datastoreEndpoint ev'"
  shows "checkUserPermissions pf ev ui = checkUserPermissions pf' ev' ui"
proof -
  have url: "new_URL pf (String_undefined (datastoreEndpoint ev))
               = new_URL pf' (String_undefined (datastoreEndpoint ev'))"
    using assms(2,6) by simp
  have cb: "permission_callback pf ev allowed = permission_callback pf' ev' allowed"
    for allowed
    by (rule ext) (simp add: permission_callback_def Let_def scope_loop_cong [OF url assms(3,5)])
  have rq: "requiredPermissions pf r (operationName ev)
              = requiredPermissions pf' r (operationName ev')" for r
    using assms(4,5) by (simp add: requiredPermissions_def)
  have "checkUserPermissions_try pf ev ui = checkUserPermissions_try pf' ev' ui"
    unfolding checkUserPermissions_try_def assms(1) url
    by (simp add: cb rq split: option.splits sum.splits)
  then show ?thesis by (simp add: checkUserPermissions_def)
qed

text \<open>The theorem at two calls with different clocks, token tables, role
  configurations and bearer tokens.\<close>

theorem checkUserPermissions_pure_witness:
  "cognito_adminListGroupsForUser (example_platform [''Practitioners''])
       (Username (UserObject (Some ''P1'')))
     = cognito_adminListGroupsForUser (later_platform [''Practitioners''])
         (Username (UserObject (Some ''P1'')))
   \<and> new_URL (example_platform [''Practitioners''])
     = new_URL (later_platform [''Practitioners''])
   \<and> URLSearchParams_get (example_platform [''Practitioners''])
     = URLSearchParams_get (later_platform [''Practitioners''])
   \<and> builtin_member_truthy (example_platform [''Practitioners''])
     = builtin_member_truthy (later_platform [''Practitioners''])
   \<and> operationName (example_event ''SearchAll'' (Some ''https://hl.example.com/r4/Patient''))
     = operationName
         ((example_event ''SearchAll'' (Some ''https://hl.example.com/r4/Patient''))
            \<lparr> bearerToken := Some ''tok2'' \<rparr>)
   \<and> datastoreEndpoint
       (example_event ''SearchAll'' (Some ''https://hl.example.com/r4/Patient''))
     = datastoreEndpoint
         ((example_event ''SearchAll'' (Some ''https://hl.example.com/r4/Patient''))
            \<lparr> bearerToken := Some ''tok2'' \<rparr>)
   \<and> Date_now (example_platform [''Practitioners''])
     \<noteq> Date_now (later_platform [''Practitioners''])
   \<and> checkUserPermissions (example_platform [''Practitioners''])
       (example_event ''SearchAll'' (Some ''https://hl.example.com/r4/Patient''))
       (UserObject (Some ''P1''))
     = checkUserPermissions (later_platform [''Practitioners''])
         ((example_event ''SearchAll'' (Some ''https://hl.example.com/r4/Patient''))
            \<lparr> bearerToken := Some ''tok2'' \<rparr>)
         (UserObject (Some ''P1''))"
proof -
  let ?pf = "example_platform [''Practitioners'']"
  let ?pf' = "later_platform [''Practitioners'']"
  let ?ev = "example_event ''SearchAll'' (Some ''https://hl.example.com/r4/Patient'')"
  let ?ev' = "?ev \<lparr> bearerToken := Some ''tok2'' \<rparr>"
  let ?ui = "UserObject (Some ''P1'')"
  have h1: "cognito_adminListGroupsForUser ?pf (Username ?ui)
              = cognito_adminListGroupsForUser ?pf' (Username ?ui)"
    by (simp add: later_platform_def example_platform_def)
  have h2: "new_URL ?pf = new_URL ?pf'"
    by (simp add: later_platform_def example_platform_def)
  have h3: "URLSearchParams_get ?pf = URLSearchParams_get ?pf'"
    by (simp add: later_platform_def example_platform_def)
  have h4: "builtin_member_truthy ?pf = builtin_member_truthy ?pf'"
    by (simp add: later_platform_def example_platform_def)
  have h5: "operationName ?ev = operationName ?ev'" by simp
  have h6: "datastoreEndpoint ?ev = datastoreEndpoint ?ev'" by simp
  have h7: "Date_now ?pf \<noteq> Date_now ?pf'"
    by (simp add: later_platform_def example_platform_def)
  from checkUserPermissions_pure [OF h1 h2 h3 h4 h5 h6] h1 h2 h3 h4 h5 h6 h7
  show ?thesis by blast
qed

section \<open>Properties of the gateway authorizer Lambda\<close>

lemmas auth_defs =
  auth_handler_def auth_handler_try_def bearer_token_def allow_response_def deny_response_def
  getSigningKey_def policies_def get_prop_def spread_or_empty_def String_undefined_def
  Object_prototype_keys_def truthy_def js_or_def

lemmas example_auth_defs = example_auth_platform_def example_authEvent_def

subsection \<open>The stages of the handler\<close>

lemma auth_verified:
  assumes "truthy (authorizationToken ev)"
      and "jwt_decode pf (bearer_token ev) = Some d"
      and "header d = Some h" and "payload d = Some c"
      and "getSigningKey pf (kid h) = Inr k"
      and "jwt_verify pf (bearer_token ev) k = Inr verifiedToken"
  shows "auth_handler_try pf ev = allow_response ev verifiedToken"
  using assms by (simp add: auth_handler_try_def Let_def)

lemma allow_response_Allow:
  "allow_response ev verifiedToken = Inr r
     \<Longrightarrow> map Effect (Statement (policyDocument r)) = [Allow]
         \<and> map Resource (Statement (policyDocument r)) = [methodArn ev]"
  by (auto simp: allow_response_def Let_def split: sum.splits)

lemma allow_response_no_inherited:
  assumes "set (case cognito_groups verifiedToken of None \<Rightarrow> [] | Some gs \<Rightarrow> gs)
             \<inter> set Object_prototype_keys = {}"
  shows "\<exists>r. allow_response ev verifiedToken = Inr r"
proof -
  from reduce_policies_no_inherited [OF assms]
  obtain xs where "reduce_policies (policies (token_sub verifiedToken)) []
                     (case cognito_groups verifiedToken of None \<Rightarrow> [] | Some gs \<Rightarrow> gs) = Inr xs"
    by blast
  then show ?thesis by (simp add: allow_response_def Let_def)
qed

text \<open>The handler returns either the Deny policy or the response built from the verified
  payload.\<close>

lemma auth_handler_total:
  "auth_handler pf ev = deny_response ev
   \<or> (\<exists>c. allow_response ev c = Inr (auth_handler pf ev))"
  by (auto simp: auth_handler_def auth_handler_try_def Let_def split: option.splits sum.splits)

lemma auth_handler_try_Inl:
  "auth_handler_try pf ev = Inl e \<Longrightarrow> auth_handler pf ev = deny_response ev"
  by (simp add: auth_handler_def)

subsection \<open>Exceptions become Deny\<close>

text \<open>
  Claim C5: for every authorizer input, if any stage throws, the handler returns a Deny
  policy document, with Effect Deny on the requested \<^verbatim>\<open>methodArn\<close>, and never
  propagates an error to the caller. The stages, in the order of the disjunction: the
  token presence check; the decode (null, or no header, or no payload); the key
  resolution; the signature and temporal verification; the extraction of the claims,
  where the reduction over the groups can throw. The handler is a total function into
  responses, so that it returns is part of its type.
\<close>

theorem auth_handler_deny_on_exception:
  assumes "\<not> truthy (authorizationToken ev)
           \<or> jwt_decode pf (bearer_token ev) = None
           \<or> (jwt_decode pf (bearer_token ev) = Some d
               \<and> (header d = None \<or> payload d = None))
           \<or> (jwt_decode pf (bearer_token ev) = Some d \<and> header d = Some h
               \<and> getSigningKey pf (kid h) = Inl e)
           \<or> (jwt_decode pf (bearer_token ev) = Some d \<and> header d = Some h
               \<and> getSigningKey pf (kid h) = Inr k
               \<and> jwt_verify pf (bearer_token ev) k = Inl e)
           \<or> (jwt_decode pf (bearer_token ev) = Some d \<and> header d = Some h
               \<and> getSigningKey pf (kid h) = Inr k
               \<and> jwt_verify pf (bearer_token ev) k = Inr c
               \<and> allow_response ev c = Inl e)"
  shows "auth_handler pf ev = deny_response ev
         \<and> principalId (auth_handler pf ev) = Some ''unauthorized''
         \<and> map Effect (Statement (policyDocument (auth_handler pf ev))) = [Deny]
         \<and> map Resource (Statement (policyDocument (auth_handler pf ev))) = [methodArn ev]"
proof -
  have "\<exists>x. auth_handler_try pf ev = Inl x"
    using assms
    by (auto simp: auth_handler_try_def Let_def split: option.splits sum.splits)
  then have "auth_handler pf ev = deny_response ev"
    by (auto simp: auth_handler_try_Inl)
  then show ?thesis by (simp add: deny_response_def)
qed

text \<open>The theorem at a token that does not decode.\<close>

theorem auth_handler_deny_on_exception_witness:
  "jwt_decode (example_auth_platform None) (bearer_token (example_authEvent (Some ''Bearer forged'')))
     = None
   \<and> auth_handler (example_auth_platform None) (example_authEvent (Some ''Bearer forged''))
     = deny_response (example_authEvent (Some ''Bearer forged''))
   \<and> map Effect (Statement (policyDocument
        (auth_handler (example_auth_platform None) (example_authEvent (Some ''Bearer forged'')))))
     = [Deny]
   \<and> map Resource (Statement (policyDocument
        (auth_handler (example_auth_platform None) (example_authEvent (Some ''Bearer forged'')))))
     = [methodArn (example_authEvent (Some ''Bearer forged''))]"
proof -
  have h: "jwt_decode (example_auth_platform None)
             (bearer_token (example_authEvent (Some ''Bearer forged''))) = None"
    by (simp add: example_auth_defs bearer_token_def String_undefined_def)
  from auth_handler_deny_on_exception
         [of "example_authEvent (Some ''Bearer forged'')" "example_auth_platform None",
          OF disjI2 [OF disjI1 [OF h]]] h
  show ?thesis by blast
qed

subsection \<open>Verified tokens\<close>

text \<open>A verified token none of whose groups is named like a member of
  \<^verbatim>\<open>Object.prototype\<close> is allowed on the requested \<^verbatim>\<open>methodArn\<close>, whatever its groups
  map to; so is, in particular, a verified token without a groups claim.\<close>

lemma verified_token_allowed:
  assumes "truthy (authorizationToken ev)"
      and "jwt_decode pf (bearer_token ev) = Some d"
      and "header d = Some h" and "payload d = Some c"
      and "getSigningKey pf (kid h) = Inr k"
      and "jwt_verify pf (bearer_token ev) k = Inr verifiedToken"
      and "set (case cognito_groups verifiedToken of None \<Rightarrow> [] | Some gs \<Rightarrow> gs)
             \<inter> set Object_prototype_keys = {}"
  shows "map Effect (Statement (policyDocument (auth_handler pf ev))) = [Allow]
         \<and> map Resource (Statement (policyDocument (auth_handler pf ev))) = [methodArn ev]"
proof -
  from allow_response_no_inherited [OF assms(7)]
  obtain r where r: "allow_response ev verifiedToken = Inr r" by blast
  with auth_verified [OF assms(1-6)] have "auth_handler pf ev = r"
    by (simp add: auth_handler_def)
  with allow_response_Allow [OF r] show ?thesis by simp
qed

lemma verified_token_no_groups_allowed:
  "map Effect (Statement (policyDocument
        (auth_handler (example_auth_platform None)
           (example_authEvent (Some ''Bearer jwt''))))) = [Allow]"
  by (simp add: auth_defs example_auth_defs Let_def)

text \<open>
  Claim C9: for every token that passes signature and temporal verification the
  authorizer returns Effect Allow, also when the groups are absent or map to an empty
  permission set; the decision never consults the role-to-permission mapping.

  The code breaks this for a verified token whose \<^verbatim>\<open>cognito:groups\<close> claim holds a name
  that the \<^verbatim>\<open>policies\<close> object inherits, such as \<^verbatim>\<open>constructor\<close>: the spread of
  \<^verbatim>\<open>policies['constructor']\<close> in the reducer throws, and the \<^verbatim>\<open>catch\<close> block returns
  the Deny policy.
\<close>

theorem verified_token_with_inherited_group_name_denied:
  "jwt_verify (example_auth_platform (Some [''constructor''])) ''jwt'' ''pem''
     = Inr \<lparr> token_sub = Some ''P1'', token_email = None, token_preferred_username = None,
             cognito_groups = Some [''constructor''] \<rparr>
   \<and> auth_handler_try (example_auth_platform (Some [''constructor'']))
        (example_authEvent (Some ''Bearer jwt'')) = Inl TypeError
   \<and> map Effect (Statement (policyDocument
        (auth_handler (example_auth_platform (Some [''constructor'']))
           (example_authEvent (Some ''Bearer jwt''))))) = [Deny]"
  by (simp add: auth_defs example_auth_defs)

end
